theory Spec2Isabelle
  imports Complex_Main "HOL-Library.Char_ord" "HOL-Library.List_Lexorder"
    "HOL-Library.Monad_Syntax"
begin

section \<open>The ledger store of the finance tracker (class FinanceDatabase)\<close>

text \<open>
  The program keeps its state in an SQLite file with the relations \<open>accounts\<close> and
  \<open>transactions\<close> (and \<open>snapshots\<close>, which no operation reads or writes). The model is
  the second, extended version of the classes in the source (the one that has
  \<open>add_account\<close>, date filters and the CSV export); the first version's
  \<open>add_transaction\<close> and \<open>get_balance\<close> are the same text.

  Conventions of the embedding:
  \<^item> a table is the list of its rows in rowid order, which is the order of a table scan;
  \<^item> \<open>TEXT\<close> values are \<open>string\<close>s, compared as SQLite's default \<open>BINARY\<close> collation
    compares them: byte by byte, a proper prefix being smaller. That is the
    lexicographic order of \<open>HOL-Library.List_Lexorder\<close> over \<open>HOL-Library.Char_ord\<close>;
  \<^item> \<open>REAL\<close> values and Python floats are \<open>real\<close>: sums are exact, rounding, infinities
    and NaN are not modelled;
  \<^item> the clock (\<open>current_time()\<close>) is an argument \<open>now\<close> of every operation that reads it;
  \<^item> a Python exception is the \<open>Inl\<close> of a sum, a normal return its \<open>Inr\<close>; an operation
    that writes returns the database next to its result, so that a failed call's
    effect on the tables is a value as well.
\<close>

datatype error =
  ValueError        \<comment> \<open>Python's \<open>ValueError\<close>: the spec's \<open>ValidationError\<close>\<close>
| IntegrityError    \<comment> \<open>\<open>sqlite3.IntegrityError\<close>, a violated constraint: the spec's \<open>ReferentialError\<close>\<close>

text \<open>A row of \<open>accounts(id, name, created_at)\<close>.\<close>

record account_row =
  acc_id :: int
  acc_name :: string
  acc_created_at :: string

text \<open>The dataclass \<open>Transaction\<close>, one per row of \<open>transactions\<close>.\<close>

record Transaction =
  tx_id :: int
  account_id :: int
  timestamp :: string
  amount :: real
  tx_type :: string
  category :: string
  description :: string

text \<open>
  The database behind a connection. \<open>seq_accounts\<close> and \<open>seq_transactions\<close> are the rows
  of \<open>sqlite_sequence\<close> that \<open>AUTOINCREMENT\<close> maintains: the largest id ever given out
  in each table. \<open>foreign_keys\<close> is the connection's \<open>PRAGMA foreign_keys\<close>: only when it is
  on does SQLite enforce a \<open>FOREIGN KEY\<close> clause of the schema.
\<close>

record database =
  accounts :: "account_row list"
  transactions :: "Transaction list"
  seq_accounts :: int
  seq_transactions :: int
  foreign_keys :: bool

text \<open>An SQLite file that holds no table yet.\<close>

definition empty_database :: database where
  "empty_database =
     \<lparr>accounts = [], transactions = [], seq_accounts = 0, seq_transactions = 0,
      foreign_keys = False\<rparr>"

text \<open>
  The id an \<open>INTEGER PRIMARY KEY AUTOINCREMENT\<close> column gives a new row: one more than
  the largest of the table's recorded sequence and the ids in the table.
\<close>

definition next_rowid :: "int \<Rightarrow> int list \<Rightarrow> int" where
  "next_rowid seq ids = max seq (fold max ids 0) + 1"

text \<open>
  \<open>__init__\<close> and \<open>_initialize_database\<close>: \<open>sqlite3.connect\<close> opens the file with SQLite's
  default \<open>foreign_keys = OFF\<close> and the source never issues the pragma; the
  \<open>CREATE TABLE IF NOT EXISTS\<close> script changes no row; the default account is inserted
  when \<open>accounts\<close> is empty.
\<close>

definition initialize_database :: "database \<Rightarrow> string \<Rightarrow> database" where
  "initialize_database file now =
     (let db = file\<lparr>foreign_keys := False\<rparr> in
      if length (accounts db) = 0 then
        (let new_id = next_rowid (seq_accounts db) (map acc_id (accounts db)) in
         db\<lparr>accounts := accounts db @
               [\<lparr>acc_id = new_id, acc_name = ''Primary Account'', acc_created_at = now\<rparr>],
            seq_accounts := new_id\<rparr>)
      else db)"

text \<open>\<open>[t.value for t in TransactionType]\<close>.\<close>

definition TransactionType_values :: "string list" where
  "TransactionType_values = [''income'', ''expense'']"

text \<open>
  \<open>add_transaction\<close>. The Python check of the type comes first and raises \<open>ValueError\<close>
  before the database is touched. The \<open>INSERT\<close> then runs in a transaction that is rolled
  back on an exception; the row's constraints are \<open>NOT NULL\<close> (met by every value of these
  types), \<open>CHECK(type IN ('income', 'expense'))\<close> (met after the Python check) and the
  foreign key on \<open>account_id\<close>, which SQLite looks at only under \<open>foreign_keys\<close>. The
  function looks at \<open>amount\<close> nowhere.
\<close>

definition add_transaction ::
  "database \<Rightarrow> string \<Rightarrow> int \<Rightarrow> real \<Rightarrow> string \<Rightarrow> string \<Rightarrow> string \<Rightarrow> (error + int) \<times> database" where
  "add_transaction db now acct amt transaction_type cat descr =
     (if transaction_type \<notin> set TransactionType_values then (Inl ValueError, db)
      else if foreign_keys db \<and> acct \<notin> set (map acc_id (accounts db))
        then (Inl IntegrityError, db)
      else
        (let new_id = next_rowid (seq_transactions db) (map tx_id (transactions db));
             row = \<lparr>tx_id = new_id, account_id = acct, timestamp = now, amount = amt,
                    tx_type = transaction_type, category = cat, description = descr\<rparr>
         in (Inr new_id,
             db\<lparr>transactions := transactions db @ [row], seq_transactions := new_id\<rparr>)))"




text \<open>\<open>add_account\<close>: the \<open>INSERT\<close> alone; the name is not looked at.\<close>

definition add_account :: "database \<Rightarrow> string \<Rightarrow> string \<Rightarrow> (error + int) \<times> database" where
  "add_account db now nm =
     (let new_id = next_rowid (seq_accounts db) (map acc_id (accounts db)) in
      (Inr new_id,
       db\<lparr>accounts := accounts db @
             [\<lparr>acc_id = new_id, acc_name = nm, acc_created_at = now\<rparr>],
          seq_accounts := new_id\<rparr>))"

text \<open>
  \<open>ORDER BY timestamp DESC\<close>. The query names no second key. SQLite's sorter takes the
  rows in scan order and is stable, so rows with equal timestamps leave it in scan
  order: each row goes behind every row whose timestamp is not smaller than its own.
\<close>

fun insert_desc :: "Transaction \<Rightarrow> Transaction list \<Rightarrow> Transaction list" where
  "insert_desc r [] = [r]"
| "insert_desc r (x # xs) =
     (if timestamp x < timestamp r then r # x # xs else x # insert_desc r xs)"

definition order_by_timestamp_desc :: "Transaction list \<Rightarrow> Transaction list" where
  "order_by_timestamp_desc rows = foldl (\<lambda>sorted r. insert_desc r sorted) [] rows"

text \<open>\<open>LIMIT ?\<close>: SQLite reads a negative limit as no limit at all, and \<open>LIMIT 0\<close> as no row.\<close>

definition sql_limit :: "int \<Rightarrow> 'a list \<Rightarrow> 'a list" where
  "sql_limit n rows = (if n < 0 then rows else take (nat n) rows)"

text \<open>
  \<open>if start_date:\<close> and \<open>if end_date:\<close> take \<open>None\<close> and the empty string as "no bound".
  \<open>in_window\<close> is the \<open>WHERE\<close> clause the two tests add: \<open>timestamp >= ?\<close> and
  \<open>timestamp <= ?\<close>, comparisons of \<open>TEXT\<close>.
\<close>

definition truthy :: "string option \<Rightarrow> bool" where
  "truthy v = (case v of None \<Rightarrow> False | Some s \<Rightarrow> s \<noteq> [])"

definition in_window :: "string option \<Rightarrow> string option \<Rightarrow> Transaction \<Rightarrow> bool" where
  "in_window start_date end_date r =
     ((if truthy start_date then the start_date \<le> timestamp r else True) \<and>
      (if truthy end_date then timestamp r \<le> the end_date else True))"

text \<open>\<open>get_transactions\<close>: the query and one \<open>Transaction\<close> per row; no statement raises.\<close>

definition get_transactions ::
  "database \<Rightarrow> int \<Rightarrow> int \<Rightarrow> string option \<Rightarrow> string option \<Rightarrow> error + Transaction list" where
  "get_transactions db acct limit start_date end_date =
     Inr (sql_limit limit
            (order_by_timestamp_desc
               (filter (\<lambda>r. account_id r = acct \<and> in_window start_date end_date r)
                  (transactions db))))"

text \<open>
  \<open>get_spending_by_category\<close>: \<open>GROUP BY category\<close> over the account's expense rows in the
  window; the dictionary has one key per category that has such a row.
\<close>

definition get_spending_by_category ::
  "database \<Rightarrow> int \<Rightarrow> string option \<Rightarrow> string option \<Rightarrow> (string \<rightharpoonup> real)" where
  "get_spending_by_category db acct start_date end_date =
     (let rows = filter (\<lambda>r. account_id r = acct \<and> tx_type r = ''expense'' \<and>
                             in_window start_date end_date r) (transactions db)
      in map_of (map (\<lambda>c. (c, sum_list (map amount (filter (\<lambda>r. category r = c) rows))))
                   (remdups (map category rows))))"

section \<open>Dates and text (the library calls of the source)\<close>

text \<open>
  The source parses and prints dates with \<open>datetime.strptime\<close> and \<open>strftime\<close>, and the
  \<open>csv\<close> module prints numbers with \<open>str\<close>. These library functions are modelled here as
  CPython 3.11 computes them, on strings of ASCII characters (\<open>\d\<close> also matches other
  Unicode digits, which a \<open>char\<close> cannot hold).
\<close>

subsection \<open>Digits\<close>

definition is_digit :: "char \<Rightarrow> bool" where
  "is_digit c = (CHR ''0'' \<le> c \<and> c \<le> CHR ''9'')"

definition in_range :: "char \<Rightarrow> char \<Rightarrow> char \<Rightarrow> bool" where
  "in_range lo hi c = (lo \<le> c \<and> c \<le> hi)"

definition digit_val :: "char \<Rightarrow> nat" where
  "digit_val c = of_char c - of_char CHR ''0''"

definition digit_char :: "nat \<Rightarrow> char" where
  "digit_char n = ''0123456789'' ! n"

text \<open>\<open>str(n)\<close> of a natural number, and the zero-padded fields of \<open>strftime\<close>.\<close>

fun str_nat :: "nat \<Rightarrow> string" where
  "str_nat n = (if n < 10 then [digit_char n] else str_nat (n div 10) @ [digit_char (n mod 10)])"

declare str_nat.simps [simp del]


definition zfill :: "nat \<Rightarrow> string \<Rightarrow> string" where
  "zfill w s = replicate (w - length s) CHR ''0'' @ s"

subsection \<open>\<open>datetime\<close>, \<open>strptime\<close> and \<open>strftime\<close>\<close>

text \<open>
  A \<open>datetime\<close> to the second. \<open>dt_tzinfo\<close> is \<open>None\<close> for a naive value and the UTC offset
  in seconds for an aware one (a fraction of a second in the offset is not kept).
\<close>

record datetime =
  dt_year :: nat
  dt_month :: nat
  dt_day :: nat
  dt_hour :: nat
  dt_minute :: nat
  dt_second :: nat
  dt_tzinfo :: "int option"

text \<open>
  The fields of a format are regular expressions of \<open>_strptime.TimeRE\<close>:
  \<^item> \<open>%Y\<close>: \<open>\d\d\d\d\<close>
  \<^item> \<open>%m\<close>: \<open>1[0-2]|0[1-9]|[1-9]\<close>
  \<^item> \<open>%d\<close>: \<open>3[0-1]|[1-2]\d|0[1-9]|[1-9]| [1-9]\<close>
  \<^item> \<open>%H\<close>: \<open>2[0-3]|[0-1]\d|\d\<close>
  \<^item> \<open>%M\<close>: \<open>[0-5]\d|\d\<close>
  \<^item> \<open>%S\<close>: \<open>6[0-1]|[0-5]\d|\d\<close>
  \<^item> \<open>%z\<close>: \<open>[+-]\d\d:?[0-5]\d(:?[0-5]\d(\.\d{1,6})?)?|Z\<close>

  A field parser returns the field's number and the rest of the text. Each takes the
  first alternative that matches. In the two formats of the source a one- or two-digit
  field is followed by a character that is no digit (or by the end of the pattern), so
  the alternatives the expression would try after a failure further on fail as well,
  and taking the first one is what the match computes.
\<close>

fun parse_Y :: "string \<Rightarrow> (nat \<times> string) option" where
  "parse_Y (a # b # c # d # rest) =
     (if is_digit a \<and> is_digit b \<and> is_digit c \<and> is_digit d
      then Some (1000 * digit_val a + 100 * digit_val b + 10 * digit_val c + digit_val d, rest)
      else None)"
| "parse_Y _ = None"

text \<open>
  A field of one or two digits: \<open>two a b\<close> says that the characters \<open>a b\<close> are one of the
  two-digit alternatives, \<open>one a\<close> that \<open>a\<close> is the one-digit alternative, which comes after
  them.
\<close>

fun parse_field ::
  "(char \<Rightarrow> char \<Rightarrow> bool) \<Rightarrow> (char \<Rightarrow> bool) \<Rightarrow> string \<Rightarrow> (nat \<times> string) option" where
  "parse_field two one (a # b # rest) =
     (if two a b then Some (10 * digit_val a + digit_val b, rest)
      else if one a then Some (digit_val a, b # rest)
      else None)"
| "parse_field two one [a] = (if one a then Some (digit_val a, []) else None)"
| "parse_field two one [] = None"

definition parse_m :: "string \<Rightarrow> (nat \<times> string) option" where
  "parse_m = parse_field
     (\<lambda>a b. (a = CHR ''1'' \<and> in_range CHR ''0'' CHR ''2'' b) \<or>
            (a = CHR ''0'' \<and> in_range CHR ''1'' CHR ''9'' b))
     (in_range CHR ''1'' CHR ''9'')"

text \<open>The last alternative of \<open>%d\<close> is a blank and a digit; \<open>int\<close> skips the blank.\<close>

fun parse_blank_digit :: "string \<Rightarrow> (nat \<times> string) option" where
  "parse_blank_digit (a # b # rest) =
     (if a = CHR '' '' \<and> in_range CHR ''1'' CHR ''9'' b then Some (digit_val b, rest) else None)"
| "parse_blank_digit _ = None"

definition parse_d :: "string \<Rightarrow> (nat \<times> string) option" where
  "parse_d s =
     (case parse_field
        (\<lambda>a b. (a = CHR ''3'' \<and> in_range CHR ''0'' CHR ''1'' b) \<or>
               (in_range CHR ''1'' CHR ''2'' a \<and> is_digit b) \<or>
               (a = CHR ''0'' \<and> in_range CHR ''1'' CHR ''9'' b))
        (in_range CHR ''1'' CHR ''9'') s of
        Some r \<Rightarrow> Some r
      | None \<Rightarrow> parse_blank_digit s)"

definition parse_H :: "string \<Rightarrow> (nat \<times> string) option" where
  "parse_H = parse_field
     (\<lambda>a b. (a = CHR ''2'' \<and> in_range CHR ''0'' CHR ''3'' b) \<or>
            (in_range CHR ''0'' CHR ''1'' a \<and> is_digit b))
     is_digit"

definition parse_M :: "string \<Rightarrow> (nat \<times> string) option" where
  "parse_M = parse_field (\<lambda>a b. in_range CHR ''0'' CHR ''5'' a \<and> is_digit b) is_digit"

definition parse_S :: "string \<Rightarrow> (nat \<times> string) option" where
  "parse_S = parse_field
     (\<lambda>a b. (a = CHR ''6'' \<and> in_range CHR ''0'' CHR ''1'' b) \<or>
            (in_range CHR ''0'' CHR ''5'' a \<and> is_digit b))
     is_digit"

text \<open>
  A literal character of the format. The expression is compiled with \<open>IGNORECASE\<close>, so
  the \<open>T\<close> of the format also matches \<open>t\<close>; \<open>-\<close> and \<open>:\<close> have no other case.
\<close>

fun parse_lit :: "char list \<Rightarrow> string \<Rightarrow> string option" where
  "parse_lit cs (a # rest) = (if a \<in> set cs then Some rest else None)"
| "parse_lit cs [] = None"

text \<open>A date that \<open>datetime\<close> accepts: year 1 to 9999, and a day the month has.\<close>

definition is_leap :: "nat \<Rightarrow> bool" where
  "is_leap y = (y mod 4 = 0 \<and> (y mod 100 \<noteq> 0 \<or> y mod 400 = 0))"

definition days_in_month :: "nat \<Rightarrow> nat \<Rightarrow> nat" where
  "days_in_month y m =
     (if m = 2 then (if is_leap y then 29 else 28)
      else if m \<in> {4, 6, 9, 11} then 30 else 31)"

definition valid_date :: "nat \<Rightarrow> nat \<Rightarrow> nat \<Rightarrow> bool" where
  "valid_date y m d = (1 \<le> y \<and> y \<le> 9999 \<and> 1 \<le> m \<and> m \<le> 12 \<and> 1 \<le> d \<and> d \<le> days_in_month y m)"

text \<open>
  \<open>datetime.strptime(s, "%Y-%m-%d")\<close>: \<open>None\<close> is the \<open>ValueError\<close> (no match, text left
  over after the match, or a date that does not exist). The result is naive, at 00:00:00.
\<close>

definition strptime_date :: "string \<Rightarrow> datetime option" where
  "strptime_date s = do {
     (y, s1) \<leftarrow> parse_Y s;
     s2 \<leftarrow> parse_lit ''-'' s1;
     (m, s3) \<leftarrow> parse_m s2;
     s4 \<leftarrow> parse_lit ''-'' s3;
     (d, s5) \<leftarrow> parse_d s4;
     if s5 \<noteq> [] then None
     else if \<not> valid_date y m d then None
     else Some \<lparr>dt_year = y, dt_month = m, dt_day = d, dt_hour = 0, dt_minute = 0,
                dt_second = 0, dt_tzinfo = None\<rparr>
   }"

text \<open>
  \<open>%z\<close> of \<open>strftime\<close>: empty for a naive value, else the sign and \<open>HHMM\<close>, and \<open>SS\<close> when
  the offset has seconds.
\<close>

definition strftime_z :: "int option \<Rightarrow> string" where
  "strftime_z tz =
     (case tz of None \<Rightarrow> []
      | Some off \<Rightarrow>
         (let a = nat \<bar>off\<bar> in
          (if off < 0 then ''-'' else ''+'') @ zfill 2 (str_nat (a div 3600)) @
          zfill 2 (str_nat (a mod 3600 div 60)) @
          (if a mod 60 = 0 then [] else zfill 2 (str_nat (a mod 60)))))"

text \<open>
  \<open>strftime(ISO_FORMAT)\<close> with \<open>ISO_FORMAT = "%Y-%m-%dT%H:%M:%S%z"\<close>, and
  \<open>strftime("%Y-%m-%d %H:%M")\<close>. The year is written with four digits (the C library
  of some platforms writes a year below 1000 without the leading zeros).
\<close>

definition strftime_ISO_FORMAT :: "datetime \<Rightarrow> string" where
  "strftime_ISO_FORMAT dt =
     zfill 4 (str_nat (dt_year dt)) @ ''-'' @ zfill 2 (str_nat (dt_month dt)) @ ''-'' @
     zfill 2 (str_nat (dt_day dt)) @ ''T'' @ zfill 2 (str_nat (dt_hour dt)) @ '':'' @
     zfill 2 (str_nat (dt_minute dt)) @ '':'' @ zfill 2 (str_nat (dt_second dt)) @
     strftime_z (dt_tzinfo dt)"

definition strftime_display :: "datetime \<Rightarrow> string" where
  "strftime_display dt =
     zfill 4 (str_nat (dt_year dt)) @ ''-'' @ zfill 2 (str_nat (dt_month dt)) @ ''-'' @
     zfill 2 (str_nat (dt_day dt)) @ '' '' @ zfill 2 (str_nat (dt_hour dt)) @ '':'' @
     zfill 2 (str_nat (dt_minute dt))"

text \<open>
  \<open>%z\<close> of \<open>strptime\<close>: the offset in seconds and the rest of the text. The optional
  groups are greedy. After the match \<open>_strptime\<close> removes the colons and raises
  \<open>ValueError\<close> when only one of the two places has one; \<open>timezone\<close> raises it for an offset
  of 24 hours or more. A fraction of up to six digits may follow the seconds.
\<close>

definition opt_colon :: "string \<Rightarrow> bool \<times> string" where
  "opt_colon s = (case s of c # rest \<Rightarrow> (if c = CHR '':'' then (True, rest) else (False, s))
                  | [] \<Rightarrow> (False, s))"

definition opt_fraction :: "string \<Rightarrow> string" where
  "opt_fraction s =
     (case s of
        p # d # rest \<Rightarrow>
          (if p = CHR ''.'' \<and> is_digit d then drop (length (takeWhile is_digit (take 5 rest))) rest
           else s)
      | _ \<Rightarrow> s)"

definition two_digits :: "(char \<Rightarrow> bool) \<Rightarrow> string \<Rightarrow> (nat \<times> string) option" where
  "two_digits first s =
     (case s of
        a # b # rest \<Rightarrow>
          (if first a \<and> is_digit b then Some (10 * digit_val a + digit_val b, rest) else None)
      | _ \<Rightarrow> None)"

definition parse_z :: "string \<Rightarrow> (int \<times> string) option" where
  "parse_z s =
     (if s = [] then None
      else if hd s = CHR ''Z'' then Some (0, tl s)
      else if hd s \<noteq> CHR ''+'' \<and> hd s \<noteq> CHR ''-'' then None
      else do {
        (h, s2) \<leftarrow> two_digits is_digit (tl s);
        (m, s4) \<leftarrow> two_digits (in_range CHR ''0'' CHR ''5'') (snd (opt_colon s2));
        let colon1 = fst (opt_colon s2);
        let colon2 = fst (opt_colon s4);
        let sign = (if hd s = CHR ''-'' then - 1 else 1);
        if 24 \<le> h then None
        else (case two_digits (in_range CHR ''0'' CHR ''5'') (snd (opt_colon s4)) of
                None \<Rightarrow> Some (sign * int (h * 3600 + m * 60), s4)
              | Some (sec, s6) \<Rightarrow>
                  (if colon1 \<noteq> colon2 then None
                   else Some (sign * int (h * 3600 + m * 60 + sec), opt_fraction s6)))
      })"

text \<open>
  \<open>datetime.strptime(s, ISO_FORMAT)\<close>: \<open>None\<close> is the \<open>ValueError\<close>. \<open>datetime\<close> takes no
  second above 59, though the expression of \<open>%S\<close> matches 60 and 61.
\<close>

definition strptime_ISO_FORMAT :: "string \<Rightarrow> datetime option" where
  "strptime_ISO_FORMAT s = do {
     (y, s1) \<leftarrow> parse_Y s;
     s2 \<leftarrow> parse_lit ''-'' s1;
     (m, s3) \<leftarrow> parse_m s2;
     s4 \<leftarrow> parse_lit ''-'' s3;
     (d, s5) \<leftarrow> parse_d s4;
     s6 \<leftarrow> parse_lit ''Tt'' s5;
     (hh, s7) \<leftarrow> parse_H s6;
     s8 \<leftarrow> parse_lit '':'' s7;
     (mm, s9) \<leftarrow> parse_M s8;
     s10 \<leftarrow> parse_lit '':'' s9;
     (ss, s11) \<leftarrow> parse_S s10;
     (off, s12) \<leftarrow> parse_z s11;
     if s12 \<noteq> [] then None
     else if \<not> valid_date y m d \<or> 59 < ss then None
     else Some \<lparr>dt_year = y, dt_month = m, dt_day = d, dt_hour = hh, dt_minute = mm,
                dt_second = ss, dt_tzinfo = Some off\<rparr>
   }"

text \<open>\<open>format_date_display\<close>: the timestamp itself when it does not parse.\<close>

definition format_date_display :: "string \<Rightarrow> string" where
  "format_date_display ts =
     (case strptime_ISO_FORMAT ts of None \<Rightarrow> ts | Some dt \<Rightarrow> strftime_display dt)"

subsection \<open>The date range of the menu (\<open>FinanceManager._get_date_range\<close>)\<close>

text \<open>\<open>str.strip()\<close>: the ASCII characters for which \<open>str.isspace\<close> holds.\<close>

definition is_space :: "char \<Rightarrow> bool" where
  "is_space c = (c \<in> set [CHR 0x09, CHR 0x0A, CHR 0x0B, CHR 0x0C, CHR 0x0D,
                            CHR 0x1C, CHR 0x1D, CHR 0x1E, CHR 0x1F, CHR 0x20])"

definition strip :: "string \<Rightarrow> string" where
  "strip s = rev (dropWhile is_space (rev (dropWhile is_space s)))"

text \<open>
  \<open>_get_date_range\<close>, with the two lines the user types as arguments. A blank line stays
  the empty string; a date is parsed, the end date moved to 23:59:59, and printed with
  \<open>ISO_FORMAT\<close>; a \<open>ValueError\<close> of either \<open>strptime\<close> gives \<open>(None, None)\<close>.
\<close>

definition end_of_day :: "datetime \<Rightarrow> datetime" where
  "end_of_day dt = dt\<lparr>dt_hour := 23, dt_minute := 59, dt_second := 59\<rparr>"

definition get_date_range :: "string \<Rightarrow> string \<Rightarrow> string option \<times> string option" where
  "get_date_range start_input end_input =
     (let start_date = strip start_input;
          end_date = strip end_input;
          converted = do {
            start_text \<leftarrow>
              (if start_date \<noteq> []
               then map_option strftime_ISO_FORMAT (strptime_date start_date)
               else Some start_date);
            end_text \<leftarrow>
              (if end_date \<noteq> []
               then map_option (\<lambda>dt. strftime_ISO_FORMAT (end_of_day dt)) (strptime_date end_date)
               else Some end_date);
            Some (start_text, end_text)
          }
      in case converted of
           None \<Rightarrow> (None, None)
         | Some (start_text, end_text) \<Rightarrow> (Some start_text, Some end_text))"

subsection \<open>The CSV export\<close>










section \<open>Runs of the program\<close>

subsection \<open>Sequences of calls\<close>

text \<open>
  One call of \<open>add_transaction\<close>: the clock's reading at the call and the five arguments.
  \<open>add_transactions\<close> issues the calls in order; a call that raises leaves the database
  as its rollback leaves it and the next call goes on from there.
\<close>

record tx_call =
  call_now :: string
  call_account :: int
  call_amount :: real
  call_type :: string
  call_category :: string
  call_description :: string

fun add_transactions :: "database \<Rightarrow> tx_call list \<Rightarrow> database" where
  "add_transactions db [] = db"
| "add_transactions db (c # cs) =
     add_transactions
       (snd (add_transaction db (call_now c) (call_account c) (call_amount c) (call_type c)
               (call_category c) (call_description c))) cs"

subsection \<open>A run of the program, for the concrete instances below\<close>

text \<open>
  \<open>db0\<close> is the database the first start of the program leaves: a new file, opened and
  initialised, holding the default account with id 1. \<open>calls0\<close> are five calls: three
  well-formed ones on account 1, one with an unknown type, and one on account 2, which
  does not exist.
\<close>

definition db0 :: database where
  "db0 = initialize_database empty_database ''2024-03-15T14:30:00+0000''"

definition calls0 :: "tx_call list" where
  "calls0 =
    [\<lparr>call_now = ''2024-03-15T14:31:00+0000'', call_account = 1, call_amount = 1000,
      call_type = ''income'', call_category = ''Salary'', call_description = ''''\<rparr>,
     \<lparr>call_now = ''2024-03-15T14:32:00+0000'', call_account = 1, call_amount = 250,
      call_type = ''expense'', call_category = ''Rent'', call_description = ''March''\<rparr>,
     \<lparr>call_now = ''2024-03-15T14:33:00+0000'', call_account = 1, call_amount = 40,
      call_type = ''refund'', call_category = ''Food'', call_description = ''''\<rparr>,
     \<lparr>call_now = ''2024-03-15T14:34:00+0000'', call_account = 2, call_amount = 70,
      call_type = ''income'', call_category = ''Gift'', call_description = ''''\<rparr>,
     \<lparr>call_now = ''2024-03-15T14:35:00+0000'', call_account = 1, call_amount = 12.5,
      call_type = ''income'', call_category = ''Bonus'', call_description = ''''\<rparr>]"

text \<open>\<open>db1\<close> is \<open>db0\<close> after the five calls: the call with the unknown type left no row.\<close>

definition db1 :: database where
  "db1 = add_transactions db0 calls0"


text \<open>
  \<open>db_eod\<close> is \<open>db0\<close> after three expenses of account 1 on 15 March 2024: in the first
  second of the day, at noon, and in the last second of the day.
\<close>

definition db_eod :: database where
  "db_eod = add_transactions db0
     [\<lparr>call_now = ''2024-03-15T00:00:00+0000'', call_account = 1, call_amount = 500,
       call_type = ''expense'', call_category = ''Rent'', call_description = ''''\<rparr>,
      \<lparr>call_now = ''2024-03-15T12:00:00+0000'', call_account = 1, call_amount = 20,
       call_type = ''expense'', call_category = ''Transport'', call_description = ''''\<rparr>,
      \<lparr>call_now = ''2024-03-15T23:59:59+0000'', call_account = 1, call_amount = 80,
       call_type = ''expense'', call_category = ''Food'', call_description = ''dinner''\<rparr>]"


section \<open>Properties of the store\<close>

subsection \<open>Rejected transaction types\<close>

text \<open>
  C8. For every type string outside {income, expense}, \<open>add_transaction\<close> fails with
  \<open>ValueError\<close> (the spec's ValidationError), whatever the other arguments and the state
  are, and the database it leaves is the one it was given: no row is added.
\<close>

theorem add_transaction_rejects_unknown_type:
  assumes "transaction_type \<noteq> ''income''" and "transaction_type \<noteq> ''expense''"
  shows "add_transaction db now acct amt transaction_type cat descr = (Inl ValueError, db)"
  using assms by (simp add: add_transaction_def TransactionType_values_def)

theorem add_transaction_rejects_unknown_type_witness:
  "''refund'' \<noteq> ''income'' \<and> ''refund'' \<noteq> ''expense'' \<and>
   add_transaction (initialize_database empty_database ''2024-03-15T14:30:00+0000'')
     ''2024-03-15T14:31:00+0000'' 1 25 ''refund'' ''Food'' ''lunch''
   = (Inl ValueError, initialize_database empty_database ''2024-03-15T14:30:00+0000'')"
  using add_transaction_rejects_unknown_type
    [of "''refund''" "initialize_database empty_database ''2024-03-15T14:30:00+0000''"
        "''2024-03-15T14:31:00+0000''" 1 25 "''Food''" "''lunch''"]
  by simp

subsection \<open>The balance after a sequence of calls\<close>








subsection \<open>Evaluating the run\<close>

lemmas run_defs = db0_def calls0_def initialize_database_def empty_database_def
  add_transaction_def TransactionType_values_def next_rowid_def Let_def

lemmas query_defs = get_transactions_def order_by_timestamp_desc_def sql_limit_def
  in_window_def truthy_def

lemma db0_value:
  "db0 = \<lparr>accounts = [\<lparr>acc_id = 1, acc_name = ''Primary Account'',
                         acc_created_at = ''2024-03-15T14:30:00+0000''\<rparr>],
           transactions = [], seq_accounts = 1, seq_transactions = 0, foreign_keys = False\<rparr>"
  by (simp add: run_defs)

lemma db1_value:
  "db1 = \<lparr>accounts = [\<lparr>acc_id = 1, acc_name = ''Primary Account'',
                         acc_created_at = ''2024-03-15T14:30:00+0000''\<rparr>],
           transactions =
            [\<lparr>tx_id = 1, account_id = 1, timestamp = ''2024-03-15T14:31:00+0000'', amount = 1000,
              tx_type = ''income'', category = ''Salary'', description = ''''\<rparr>,
             \<lparr>tx_id = 2, account_id = 1, timestamp = ''2024-03-15T14:32:00+0000'', amount = 250,
              tx_type = ''expense'', category = ''Rent'', description = ''March''\<rparr>,
             \<lparr>tx_id = 3, account_id = 2, timestamp = ''2024-03-15T14:34:00+0000'', amount = 70,
              tx_type = ''income'', category = ''Gift'', description = ''''\<rparr>,
             \<lparr>tx_id = 4, account_id = 1, timestamp = ''2024-03-15T14:35:00+0000'', amount = 12.5,
              tx_type = ''income'', category = ''Bonus'', description = ''''\<rparr>],
           seq_accounts = 1, seq_transactions = 4, foreign_keys = False\<rparr>"
  by (simp add: db1_def run_defs)


subsection \<open>Transactions on an account that does not exist\<close>

text \<open>
  C2. The claim: \<open>add_transaction\<close> on an account id that references no account fails and
  writes nothing. The schema declares the foreign key, but no connection of the program
  enforces it: on the freshly initialised database, whose only account has id 1, the
  call for account 999 returns the new row's id 1 and the row is in the table.
\<close>

theorem add_transaction_unknown_account_inserted:
  "999 \<notin> set (map acc_id (accounts db0)) \<and>
   add_transaction db0 ''2024-03-15T14:31:00+0000'' 999 10 ''income'' ''Salary'' '''' =
     (Inr 1,
      db0\<lparr>transactions :=
            [\<lparr>tx_id = 1, account_id = 999, timestamp = ''2024-03-15T14:31:00+0000'',
              amount = 10, tx_type = ''income'', category = ''Salary'', description = ''''\<rparr>],
          seq_transactions := 1\<rparr>)"
  by (simp add: run_defs)

subsection \<open>Amounts that are not positive\<close>




subsection \<open>The balance of an account that does not exist\<close>




subsection \<open>The order and the length of a listing\<close>









subsection \<open>Limits that are not positive\<close>




subsection \<open>New accounts\<close>

lemma fold_max_start: "a \<le> fold max ids (a::int)"
proof (induction ids arbitrary: a)
  case Nil
  show ?case by simp
next
  case (Cons x xs)
  have "a \<le> max x a" by simp
  also have "max x a \<le> fold max xs (max x a)" by (rule Cons.IH)
  finally show ?case by simp
qed

lemma fold_max_upper: "i \<in> set ids \<Longrightarrow> i \<le> fold max ids (a::int)"
proof (induction ids arbitrary: a)
  case Nil
  then show ?case by simp
next
  case (Cons x xs)
  show ?case
  proof (cases "i = x")
    case True
    have "i \<le> max x a" using True by simp
    also have "max x a \<le> fold max xs (max x a)" by (rule fold_max_start)
    finally show ?thesis by simp
  next
    case False
    then have "i \<in> set xs" using Cons.prems by simp
    then show ?thesis using Cons.IH by simp
  qed
qed

lemma next_rowid_above_seq: "seq < next_rowid seq ids"
  unfolding next_rowid_def by (rule less_le_trans [of _ "seq + 1"]) simp_all

lemma next_rowid_above_ids: "i \<in> set ids \<Longrightarrow> i < next_rowid seq ids"
proof -
  assume "i \<in> set ids"
  then have "i \<le> fold max ids 0" by (rule fold_max_upper)
  also have "\<dots> \<le> max seq (fold max ids 0)" by simp
  finally show ?thesis unfolding next_rowid_def by simp
qed

lemma next_rowid_fresh: "next_rowid seq ids \<notin> set ids"
  using next_rowid_above_ids [of "next_rowid seq ids" ids seq] by auto

text \<open>
  C9, as claimed: \<open>add_account\<close> fails when the name is empty. It inserts the account
  with the empty name and returns its id, 2.
\<close>

theorem add_account_empty_name_inserted:
  "add_account db0 ''2024-03-15T14:31:00+0000'' '''' =
     (Inr 2,
      db0\<lparr>accounts := accounts db0 @
            [\<lparr>acc_id = 2, acc_name = '''', acc_created_at = ''2024-03-15T14:31:00+0000''\<rparr>],
          seq_accounts := 2\<rparr>)"
  by (simp add: db0_value add_account_def next_rowid_def)

text \<open>
  C9, amended. \<open>add_account\<close> does not look at the name: for every name, the empty one
  too, it appends the account under a fresh id and returns the id. The id is in no
  row of the table and is larger than every id the table has ever given out; the
  transactions are untouched.
\<close>

theorem add_account_any_name:
  "fst (add_account db now nm) = Inr (next_rowid (seq_accounts db) (map acc_id (accounts db))) \<and>
   next_rowid (seq_accounts db) (map acc_id (accounts db)) \<notin> set (map acc_id (accounts db)) \<and>
   seq_accounts db < next_rowid (seq_accounts db) (map acc_id (accounts db)) \<and>
   accounts (snd (add_account db now nm)) =
     accounts db @ [\<lparr>acc_id = next_rowid (seq_accounts db) (map acc_id (accounts db)),
                      acc_name = nm, acc_created_at = now\<rparr>] \<and>
   seq_accounts (snd (add_account db now nm)) =
     next_rowid (seq_accounts db) (map acc_id (accounts db)) \<and>
   transactions (snd (add_account db now nm)) = transactions db"
  using next_rowid_fresh [of "seq_accounts db" "map acc_id (accounts db)"]
        next_rowid_above_seq [of "seq_accounts db" "map acc_id (accounts db)"]
  by (simp add: add_account_def Let_def)

theorem add_account_any_name_witness:
  "fst (add_account db1 ''2024-03-16T09:00:00+0000'' ''Savings'') = Inr 2 \<and>
   (2 :: int) \<notin> set (map acc_id (accounts db1)) \<and>
   seq_accounts db1 < 2 \<and>
   accounts (snd (add_account db1 ''2024-03-16T09:00:00+0000'' ''Savings'')) =
     accounts db1 @ [\<lparr>acc_id = 2, acc_name = ''Savings'',
                       acc_created_at = ''2024-03-16T09:00:00+0000''\<rparr>]"
  using add_account_any_name [of db1 "''2024-03-16T09:00:00+0000''" "''Savings''"]
  by (simp add: db1_value next_rowid_def)

subsection \<open>The date range of a listing\<close>

lemmas date_defs = format_date_display_def strptime_ISO_FORMAT_def strptime_date_def
  parse_m_def parse_d_def parse_H_def parse_M_def parse_S_def parse_z_def two_digits_def
  opt_colon_def opt_fraction_def is_digit_def in_range_def digit_val_def digit_char_def
  valid_date_def days_in_month_def is_leap_def strftime_display_def strftime_ISO_FORMAT_def
  strftime_z_def zfill_def str_nat.simps

lemma db_eod_value:
  "db_eod = \<lparr>accounts = [\<lparr>acc_id = 1, acc_name = ''Primary Account'',
                         acc_created_at = ''2024-03-15T14:30:00+0000''\<rparr>],
           transactions =
            [\<lparr>tx_id = 1, account_id = 1, timestamp = ''2024-03-15T00:00:00+0000'', amount = 500,
              tx_type = ''expense'', category = ''Rent'', description = ''''\<rparr>,
             \<lparr>tx_id = 2, account_id = 1, timestamp = ''2024-03-15T12:00:00+0000'', amount = 20,
              tx_type = ''expense'', category = ''Transport'', description = ''''\<rparr>,
             \<lparr>tx_id = 3, account_id = 1, timestamp = ''2024-03-15T23:59:59+0000'', amount = 80,
              tx_type = ''expense'', category = ''Food'', description = ''dinner''\<rparr>],
           seq_accounts = 1, seq_transactions = 3, foreign_keys = False\<rparr>"
  by (simp add: db_eod_def run_defs)

lemma get_date_range_15_March:
  "get_date_range ''2024-03-15'' ''2024-03-15'' =
     (Some ''2024-03-15T00:00:00'', Some ''2024-03-15T23:59:59'')"
  by (simp add: get_date_range_def strip_def is_space_def end_of_day_def date_defs)

text \<open>
  C6. The claim: a start date resolves to 00:00:00 and an end date to 23:59:59 of the
  day in the canonical format of the stored timestamps, and a transaction stamped
  exactly at a bound is listed. The user asks for 2024-03-15 to 2024-03-15.
  \<open>_get_date_range\<close> prints both bounds from naive \<open>datetime\<close> values, so they carry no
  offset, and the stored text \<open>2024-03-15T23:59:59+0000\<close> is larger than the end bound
  \<open>2024-03-15T23:59:59\<close>, of which it is an extension: the transaction of the last
  second of the day (id 3) is in neither result, while the one of the first second
  (id 1) is.
\<close>

theorem date_range_end_bound_excludes_last_second:
  "get_date_range ''2024-03-15'' ''2024-03-15'' =
     (Some ''2024-03-15T00:00:00'', Some ''2024-03-15T23:59:59'') \<and>
   get_transactions db_eod 1 50 (fst (get_date_range ''2024-03-15'' ''2024-03-15''))
     (snd (get_date_range ''2024-03-15'' ''2024-03-15'')) =
     Inr [\<lparr>tx_id = 2, account_id = 1, timestamp = ''2024-03-15T12:00:00+0000'', amount = 20,
           tx_type = ''expense'', category = ''Transport'', description = ''''\<rparr>,
          \<lparr>tx_id = 1, account_id = 1, timestamp = ''2024-03-15T00:00:00+0000'', amount = 500,
           tx_type = ''expense'', category = ''Rent'', description = ''''\<rparr>] \<and>
   get_spending_by_category db_eod 1 (fst (get_date_range ''2024-03-15'' ''2024-03-15''))
     (snd (get_date_range ''2024-03-15'' ''2024-03-15'')) ''Food'' = None \<and>
   get_spending_by_category db_eod 1 (fst (get_date_range ''2024-03-15'' ''2024-03-15''))
     (snd (get_date_range ''2024-03-15'' ''2024-03-15'')) ''Rent'' = Some 500"
  by (simp add: get_date_range_15_March db_eod_value query_defs get_spending_by_category_def)

subsection \<open>The CSV export\<close>








end
